theory Spec2Isabelle
  imports Main
begin

section \<open>JavaScript values\<close>

text \<open>
  The handlers of \<^verbatim>\<open>server.js\<close> work on values that come out of \<^verbatim>\<open>JSON.parse\<close> and out
  of property reads. \<open>Undefined\<close> is the result of reading a property that is not there.
  A number is kept as the text ECMAScript's \<^verbatim>\<open>Number::toString\<close> prints for it
  (\<open>''0''\<close> for both zeros): the handlers never compute with a number, they only test its
  truthiness and interpolate it into a string. \<open>Obj kvs\<close> lists the own properties of an
  object, one entry per key. Strings are byte strings.
\<close>

type_synonym bytes = string

datatype jsval =
    Undefined
  | Null
  | Bool bool
  | Num string
  | Str string
  | Arr "jsval list"
  | Obj "(string \<times> jsval) list"

datatype js_error = TypeError | SyntaxError

text \<open>
  \<^verbatim>\<open>v.k\<close> for the property names the handlers read (\<^verbatim>\<open>event\<close>, \<^verbatim>\<open>payload\<close>,
  \<^verbatim>\<open>account\<close>, \<^verbatim>\<open>entity\<close>, \<^verbatim>\<open>id\<close>, \<^verbatim>\<open>status\<close>, \<^verbatim>\<open>kyc_status\<close>, \<^verbatim>\<open>orderId\<close>,
  \<^verbatim>\<open>paymentId\<close>, \<^verbatim>\<open>razorpaySignature\<close>), none of which is inherited from a prototype: reading from \<^verbatim>\<open>undefined\<close> or \<^verbatim>\<open>null\<close> throws a TypeError,
  reading from any other value that lacks the property gives \<^verbatim>\<open>undefined\<close>.
\<close>

fun get_prop :: "jsval \<Rightarrow> string \<Rightarrow> js_error + jsval" where
  "get_prop Undefined k = Inl TypeError"
| "get_prop Null k = Inl TypeError"
| "get_prop (Obj kvs) k = (case map_of kvs k of None \<Rightarrow> Inr Undefined | Some v \<Rightarrow> Inr v)"
| "get_prop v k = Inr Undefined"

text \<open>A chain of property reads such as \<^verbatim>\<open>event.payload.account.entity.id\<close>.\<close>

fun get_path :: "jsval \<Rightarrow> string list \<Rightarrow> js_error + jsval" where
  "get_path v [] = Inr v"
| "get_path v (k # ks) = (case get_prop v k of Inl e \<Rightarrow> Inl e | Inr w \<Rightarrow> get_path w ks)"

text \<open>
  \<^verbatim>\<open>Array.prototype.join\<close> over the already converted elements: the first conversion that
  throws ends the join.
\<close>

fun join_strings :: "(js_error + string) list \<Rightarrow> js_error + string" where
  "join_strings [] = Inr []"
| "join_strings [r] = r"
| "join_strings (r # rs) =
     (case r of
        Inl e \<Rightarrow> Inl e
      | Inr s \<Rightarrow> (case join_strings rs of Inl e \<Rightarrow> Inl e | Inr t \<Rightarrow> Inr (s @ '','' @ t)))"

text \<open>
  The conversion a template literal \<^verbatim>\<open>`${v}`\<close> applies to \<open>v\<close>. An array is joined with
  commas, \<^verbatim>\<open>null\<close> and \<^verbatim>\<open>undefined\<close> elements printing as the empty string. An object
  that came out of \<^verbatim>\<open>JSON.parse\<close> prints as \<^verbatim>\<open>[object Object]\<close> unless it has an own
  property \<^verbatim>\<open>toString\<close>: that property holds data, not a function, so the conversion falls
  through to \<^verbatim>\<open>valueOf\<close>, gets no primitive and throws a TypeError.
\<close>

fun template_string :: "jsval \<Rightarrow> js_error + string" where
  "template_string Undefined = Inr ''undefined''"
| "template_string Null = Inr ''null''"
| "template_string (Bool b) = Inr (if b then ''true'' else ''false'')"
| "template_string (Num n) = Inr n"
| "template_string (Str s) = Inr s"
| "template_string (Arr xs) =
     join_strings (map (\<lambda>x. if x = Undefined \<or> x = Null then Inr [] else template_string x) xs)"
| "template_string (Obj kvs) =
     (case map_of kvs ''toString'' of
        None \<Rightarrow> Inr ''[object Object]''
      | Some _ \<Rightarrow> Inl TypeError)"

text \<open>\<^verbatim>\<open>!v\<close>: the falsy values are \<^verbatim>\<open>undefined\<close>, \<^verbatim>\<open>null\<close>, \<^verbatim>\<open>false\<close>, zero, NaN and
  the empty string.\<close>

fun falsy :: "jsval \<Rightarrow> bool" where
  "falsy Undefined = True"
| "falsy Null = True"
| "falsy (Bool b) = (b = False)"
| "falsy (Num n) = (n = ''0'' \<or> n = ''NaN'')"
| "falsy (Str s) = (s = [])"
| "falsy (Arr xs) = False"
| "falsy (Obj kvs) = False"

section \<open>Responses, log lines and the Document Store\<close>

text \<open>
  \<open>Send c t\<close> is \<^verbatim>\<open>res.status(c).send(t)\<close>; \<open>Json c s m\<close> is
  \<^verbatim>\<open>res.status(c).json({ status: s, message: m })\<close>.
\<close>

datatype response = Send nat string | Json nat string string

text \<open>
  One constructor per \<^verbatim>\<open>console\<close> call of the webhook handler, with the interpolated
  values and without the time stamp.
\<close>

datatype log_entry =
    Log_received string
  | Log_details string string string
  | Log_updated string
  | Warn_no_producer string
  | Error_firebase string
  | Warn_invalid_signature

text \<open>
  The \<^verbatim>\<open>users\<close> collection: documents with their ids, in the order in which a query
  returns them. A document is schemaless, a map from field names to values.
\<close>

type_synonym doc = "string \<rightharpoonup> jsval"
type_synonym users = "(string \<times> doc) list"

datatype store_op = Get_where jsval | Update string "(string \<times> jsval) list"

text \<open>
  The store is an external service: either call of the handler may throw, for any reason
  (network, permissions, a value the client library refuses). The two flags say whether
  the query and the update of this request throw. A call that throws leaves the
  collection as it was.
\<close>

record faults =
  get_fails :: bool
  update_fails :: bool

text \<open>\<^verbatim>\<open>usersRef.where('linkedAccountId', '==', v).get()\<close>\<close>

definition where_linkedAccountId :: "users \<Rightarrow> jsval \<Rightarrow> users" where
  "where_linkedAccountId us v = filter (\<lambda>(i, d). d ''linkedAccountId'' = Some v) us"

text \<open>\<^verbatim>\<open>ref.update(data)\<close> on the document with id \<open>i\<close>: the fields of \<open>data\<close> are
  overwritten, the others are kept.\<close>

definition doc_update :: "users \<Rightarrow> string \<Rightarrow> (string \<times> jsval) list \<Rightarrow> users" where
  "doc_update us i data = map (\<lambda>(j, d). if j = i then (j, d ++ map_of data) else (j, d)) us"

section \<open>The webhook handler\<close>

text \<open>
  \<^verbatim>\<open>req.body\<close> is a \<open>Buffer\<close> when the route's \<^verbatim>\<open>express.raw\<close> has read the request,
  and an already parsed value otherwise. The source registers \<^verbatim>\<open>express.json()\<close> for
  all routes in line 12, and its comments (lines 125 to 128 and 204 to 205) say that this
  route has to come first for the body to stay raw; the handler is modelled on whichever
  body reaches it. The header is absent or a string.
\<close>

datatype req_body = Buffer bytes | Parsed jsval

record request =
  body :: req_body
  x_razorpay_signature :: "string option"

record result =
  outcome :: "js_error + response"
  users_after :: users
  store_ops :: "store_op list"
  console :: "log_entry list"

text \<open>The handler throws: no response is sent, nothing more is done.\<close>

definition threw :: "js_error \<Rightarrow> users \<Rightarrow> log_entry list \<Rightarrow> result" where
  "threw e us out = \<lparr>outcome = Inl e, users_after = us, store_ops = [], console = out\<rparr>"

text \<open>
  \<^verbatim>\<open>shasum.update(req.body)\<close> takes a Buffer or a string and throws a TypeError on anything
  else; \<^verbatim>\<open>req.body.toString()\<close> is then the same bytes as text.
\<close>

fun hmac_input :: "req_body \<Rightarrow> js_error + bytes" where
  "hmac_input (Buffer b) = Inr b"
| "hmac_input (Parsed (Str s)) = Inr s"
| "hmac_input (Parsed v) = Inl TypeError"

text \<open>
  Lines 210 to 214: the hex digest of the body under the secret is compared with the
  header by \<^verbatim>\<open>===\<close>. The digest function of \<^verbatim>\<open>crypto\<close> (HMAC-SHA256, hex) is a parameter.
\<close>

definition verify_signature ::
  "(string \<Rightarrow> bytes \<Rightarrow> string) \<Rightarrow> string \<Rightarrow> bytes \<Rightarrow> string option \<Rightarrow> bool" where
  "verify_signature hmac_hex s b header = (header = Some (hmac_hex s b))"

text \<open>Lines 234 to 244: the fields written to the matched document.\<close>

definition update_data :: "jsval \<Rightarrow> jsval \<Rightarrow> (string \<times> jsval) list" where
  "update_data accountStatus kycStatus =
     [(''razorpayAccountStatus'', accountStatus), (''razorpayKycStatus'', kycStatus)] @
     (if kycStatus = Str ''verified'' then [(''kycCompleted'', Bool True)]
      else if kycStatus = Str ''pending'' \<or> kycStatus = Str ''rejected''
      then [(''kycCompleted'', Bool False)]
      else [])"

text \<open>
  Lines 227 to 254, the \<^verbatim>\<open>try\<close> block and its \<^verbatim>\<open>catch\<close>: the new collection, the store
  calls made and the lines logged. \<open>t\<close> is the account id as the log lines print it.
\<close>

definition reconcile ::
  "faults \<Rightarrow> users \<Rightarrow> jsval \<Rightarrow> jsval \<Rightarrow> jsval \<Rightarrow> string \<Rightarrow> users \<times> store_op list \<times> log_entry list" where
  "reconcile f us linkedAccountId accountStatus kycStatus t =
     (if get_fails f then (us, [Get_where linkedAccountId], [Error_firebase t])
      else
        (case where_linkedAccountId us linkedAccountId of
           [] \<Rightarrow> (us, [Get_where linkedAccountId], [Warn_no_producer t])
         | (uid, d) # rest \<Rightarrow>
             (let updateData = update_data accountStatus kycStatus in
              if update_fails f
              then (us, [Get_where linkedAccountId, Update uid updateData], [Error_firebase t])
              else (doc_update us uid updateData,
                    [Get_where linkedAccountId, Update uid updateData], [Log_updated uid]))))"

text \<open>
  Lines 221 to 258 for a recognised event: the three reads and the log line of line 225
  are outside the \<^verbatim>\<open>try\<close> block, so what they throw leaves the handler.
\<close>

definition account_event :: "faults \<Rightarrow> users \<Rightarrow> jsval \<Rightarrow> log_entry list \<Rightarrow> result" where
  "account_event f us event out =
     (case get_path event [''payload'', ''account'', ''entity'', ''id''] of
        Inl e \<Rightarrow> threw e us out
      | Inr linkedAccountId \<Rightarrow>
     (case get_path event [''payload'', ''account'', ''entity'', ''status''] of
        Inl e \<Rightarrow> threw e us out
      | Inr accountStatus \<Rightarrow>
     (case get_path event [''payload'', ''account'', ''entity'', ''kyc_status''] of
        Inl e \<Rightarrow> threw e us out
      | Inr kycStatus \<Rightarrow>
     (case template_string linkedAccountId of
        Inl e \<Rightarrow> threw e us out
      | Inr t1 \<Rightarrow>
     (case template_string accountStatus of
        Inl e \<Rightarrow> threw e us out
      | Inr t2 \<Rightarrow>
     (case template_string kycStatus of
        Inl e \<Rightarrow> threw e us out
      | Inr t3 \<Rightarrow>
     (case reconcile f us linkedAccountId accountStatus kycStatus t1 of
        (us', ops', out') \<Rightarrow>
          \<lparr>outcome = Inr (Send 200 ''Webhook Received''), users_after = us',
           store_ops = ops', console = out @ [Log_details t1 t2 t3] @ out'\<rparr>)))))))"

text \<open>
  Lines 206 to 263. \<^verbatim>\<open>crypto.createHmac\<close> throws a TypeError when the secret is
  \<^verbatim>\<open>undefined\<close>. \<^verbatim>\<open>JSON.parse\<close> is a parameter: \<open>None\<close> is its SyntaxError.
\<close>

definition razorpay_webhook ::
  "(string \<Rightarrow> bytes \<Rightarrow> string) \<Rightarrow> (string \<Rightarrow> jsval option) \<Rightarrow> string option \<Rightarrow>
   faults \<Rightarrow> users \<Rightarrow> request \<Rightarrow> result" where
  "razorpay_webhook hmac_hex JSON_parse secret f us req =
     (case secret of
        None \<Rightarrow> threw TypeError us []
      | Some s \<Rightarrow>
     (case hmac_input (body req) of
        Inl e \<Rightarrow> threw e us []
      | Inr b \<Rightarrow>
          if verify_signature hmac_hex s b (x_razorpay_signature req) then
            (case JSON_parse b of
               None \<Rightarrow> threw SyntaxError us []
             | Some event \<Rightarrow>
            (case get_prop event ''event'' of
               Inl e \<Rightarrow> threw e us []
             | Inr tag \<Rightarrow>
            (case template_string tag of
               Inl e \<Rightarrow> threw e us []
             | Inr t \<Rightarrow>
                 if tag = Str ''account.activated'' \<or> tag = Str ''account.updated''
                 then account_event f us event [Log_received t]
                 else \<lparr>outcome = Inr (Send 200 ''Webhook Received''), users_after = us,
                       store_ops = [], console = [Log_received t]\<rparr>)))
          else \<lparr>outcome = Inr (Send 403 ''Invalid Signature''), users_after = us,
                store_ops = [], console = [Warn_invalid_signature]\<rparr>))"

section \<open>The payment verification handler\<close>

text \<open>
  Lines 340 to 356. \<open>json_body\<close> is \<^verbatim>\<open>req.body\<close>: the value the JSON body parser left there,
  or \<^verbatim>\<open>undefined\<close> when none did. The destructuring of line 341 reads the three fields
  and throws a TypeError when the body is \<^verbatim>\<open>undefined\<close> or \<^verbatim>\<open>null\<close>; each field is any
  JSON value, or \<^verbatim>\<open>undefined\<close> when the body does not have it. \<^verbatim>\<open>createHmac\<close> is called
  before the template literal is evaluated and throws when \<^verbatim>\<open>process.env.KEY_SECRET\<close> is
  \<^verbatim>\<open>undefined\<close> (the handler reads \<^verbatim>\<open>KEY_SECRET\<close>, while the Razorpay client of line 19
  is built from \<^verbatim>\<open>key_secret\<close>).
\<close>

definition verify_payment ::
  "(string \<Rightarrow> bytes \<Rightarrow> string) \<Rightarrow> string option \<Rightarrow> jsval \<Rightarrow> js_error + response" where
  "verify_payment hmac_hex KEY_SECRET json_body =
     (case get_prop json_body ''orderId'' of
        Inl e \<Rightarrow> Inl e
      | Inr orderId \<Rightarrow>
     (case get_prop json_body ''paymentId'' of
        Inl e \<Rightarrow> Inl e
      | Inr paymentId \<Rightarrow>
     (case get_prop json_body ''razorpaySignature'' of
        Inl e \<Rightarrow> Inl e
      | Inr razorpaySignature \<Rightarrow>
          if falsy orderId \<or> falsy paymentId \<or> falsy razorpaySignature
          then Inr (Json 400 ''failed'' ''Missing fields for verification.'')
          else
            (case KEY_SECRET of
               None \<Rightarrow> Inl TypeError
             | Some k \<Rightarrow>
            (case template_string orderId of
               Inl e \<Rightarrow> Inl e
             | Inr ot \<Rightarrow>
            (case template_string paymentId of
               Inl e \<Rightarrow> Inl e
             | Inr pt \<Rightarrow>
                (let generatedSignature = hmac_hex k (ot @ ''|'' @ pt) in
                 if razorpaySignature \<noteq> Str generatedSignature
                 then Inr (Json 400 ''failed'' ''Invalid signature'')
                 else Inr (Json 200 ''success'' ''Payment verified successfully''))))))))"

section \<open>Sample inputs\<close>

text \<open>
  The examples below need a digest function and a parser to run. \<open>sample_hmac\<close> stands for
  the digest of \<^verbatim>\<open>crypto\<close>, and \<open>sample_parse\<close> has the value of \<^verbatim>\<open>JSON.parse\<close> on the six
  bodies the examples use; every theorem holds for any digest function and any parser.
\<close>

definition sample_hmac :: "string \<Rightarrow> bytes \<Rightarrow> string" where
  "sample_hmac s b = ''hmac('' @ s @ '','' @ b @ '')''"

definition body_verified :: bytes where
  \<open>body_verified = ''{"event":"account.activated","payload":{"account":{"entity":{"id":"acc_123","status":"activated","kyc_status":"verified"}}}}''\<close>

definition body_rejected :: bytes where
  \<open>body_rejected = ''{"event":"account.updated","payload":{"account":{"entity":{"id":"acc_456","status":"suspended","kyc_status":"rejected"}}}}''\<close>

definition body_other :: bytes where
  \<open>body_other = ''{"event":"account.updated","payload":{"account":{"entity":{"id":"acc_456","status":"activated","kyc_status":"instantly_activated"}}}}''\<close>

definition body_payment :: bytes where
  \<open>body_payment = ''{"event":"payment.captured"}''\<close>

definition body_no_payload :: bytes where
  \<open>body_no_payload = ''{"event":"account.updated"}''\<close>


definition entity_event :: "string \<Rightarrow> string \<Rightarrow> string \<Rightarrow> string \<Rightarrow> jsval" where
  "entity_event tag i st ks =
     Obj [(''event'', Str tag),
          (''payload'', Obj [(''account'', Obj [(''entity'',
             Obj [(''id'', Str i), (''status'', Str st), (''kyc_status'', Str ks)])])])]"

definition sample_parse :: "string \<Rightarrow> jsval option" where
  "sample_parse b =
     (if b = body_verified
      then Some (entity_event ''account.activated'' ''acc_123'' ''activated'' ''verified'')
      else if b = body_rejected
      then Some (entity_event ''account.updated'' ''acc_456'' ''suspended'' ''rejected'')
      else if b = body_other
      then Some (entity_event ''account.updated'' ''acc_456'' ''activated'' ''instantly_activated'')
      else if b = body_payment then Some (Obj [(''event'', Str ''payment.captured'')])
      else if b = body_no_payload then Some (Obj [(''event'', Str ''account.updated'')])
      else None)"

text \<open>The record of the end-to-end scenarios, and a second producer.\<close>

definition p1 :: doc where
  "p1 = [''linkedAccountId'' \<mapsto> Str ''acc_123'', ''kycCompleted'' \<mapsto> Bool False]"

definition p2 :: doc where
  "p2 = [''linkedAccountId'' \<mapsto> Str ''acc_456'', ''kycCompleted'' \<mapsto> Bool True]"

definition no_faults :: faults where
  "no_faults = \<lparr>get_fails = False, update_fails = False\<rparr>"

definition signed :: "string \<Rightarrow> bytes \<Rightarrow> request" where
  "signed s b = \<lparr>body = Buffer b, x_razorpay_signature = Some (sample_hmac s b)\<rparr>"

text \<open>The parsed body of a payment verification request with three string fields.\<close>

definition payment_body :: "string \<Rightarrow> string \<Rightarrow> string \<Rightarrow> jsval" where
  "payment_body oid pid sig =
     Obj [(''orderId'', Str oid), (''paymentId'', Str pid), (''razorpaySignature'', Str sig)]"

text \<open>What a test reads back: the field \<open>k\<close> of the document with id \<open>i\<close>.\<close>

definition field_of :: "users \<Rightarrow> string \<Rightarrow> string \<Rightarrow> jsval option option" where
  "field_of us i k = map_option (\<lambda>d. d k) (map_of us i)"

section \<open>Auxiliary facts\<close>

lemma sample_parse_verified:
  "sample_parse body_verified =
     Some (entity_event ''account.activated'' ''acc_123'' ''activated'' ''verified'')"
  by (simp add: sample_parse_def)

lemma sample_parse_rejected:
  "sample_parse body_rejected =
     Some (entity_event ''account.updated'' ''acc_456'' ''suspended'' ''rejected'')"
  by (simp add: sample_parse_def body_verified_def body_rejected_def)

lemma sample_parse_other:
  "sample_parse body_other =
     Some (entity_event ''account.updated'' ''acc_456'' ''activated'' ''instantly_activated'')"
  by (simp add: sample_parse_def body_verified_def body_rejected_def body_other_def)

lemma sample_parse_payment:
  "sample_parse body_payment = Some (Obj [(''event'', Str ''payment.captured'')])"
  by (simp add: sample_parse_def body_verified_def body_rejected_def body_other_def
      body_payment_def)



lemma sample_docs:
  "p1 ''linkedAccountId'' = Some (Str ''acc_123'')"
  "p2 ''linkedAccountId'' = Some (Str ''acc_456'')"
  "p1 ''kycCompleted'' = Some (Bool False)"
  "p2 ''kycCompleted'' = Some (Bool True)"
  by (simp_all add: p1_def p2_def)

lemma map_of_doc_update:
  "map_of (doc_update us i data) i = map_option (\<lambda>d. d ++ map_of data) (map_of us i)"
  by (induction us) (auto simp: doc_update_def)

lemma where_first_in_users:
  assumes "where_linkedAccountId us v = (uid, d) # rest"
  shows "(uid, d) \<in> set us"
proof -
  have "(uid, d) \<in> set (where_linkedAccountId us v)"
    using assms by simp
  then show ?thesis
    by (simp add: where_linkedAccountId_def)
qed

lemma where_first_lookup:
  assumes "where_linkedAccountId us v = (uid, d) # rest" and "distinct (map fst us)"
  shows "map_of us uid = Some d"
  using where_first_in_users [OF assms(1)] assms(2) by simp

text \<open>
  An authenticated, recognised event whose three fields can be read and printed reaches
  the \<^verbatim>\<open>try\<close> block and is acknowledged whatever happens there.
\<close>

lemma webhook_reaches_try:
  assumes "secret = Some s"
    and "body req = Buffer b"
    and "x_razorpay_signature req = Some (hmac_hex s b)"
    and "JSON_parse b = Some event"
    and "get_prop event ''event'' = Inr (Str tag)"
    and "tag = ''account.activated'' \<or> tag = ''account.updated''"
    and "get_path event [''payload'', ''account'', ''entity'', ''id''] = Inr lid"
    and "get_path event [''payload'', ''account'', ''entity'', ''status''] = Inr ast"
    and "get_path event [''payload'', ''account'', ''entity'', ''kyc_status''] = Inr ks"
    and "template_string lid = Inr t1"
    and "template_string ast = Inr t2"
    and "template_string ks = Inr t3"
  shows "razorpay_webhook hmac_hex JSON_parse secret f us req =
           \<lparr>outcome = Inr (Send 200 ''Webhook Received''),
            users_after = fst (reconcile f us lid ast ks t1),
            store_ops = fst (snd (reconcile f us lid ast ks t1)),
            console = [Log_received tag, Log_details t1 t2 t3] @
                      snd (snd (reconcile f us lid ast ks t1))\<rparr>"
proof -
  have "razorpay_webhook hmac_hex JSON_parse secret f us req =
          account_event f us event [Log_received tag]"
    using assms(1-6) by (auto simp: razorpay_webhook_def verify_signature_def)
  then show ?thesis
    using assms(7-12) by (simp add: account_event_def split: prod.splits)
qed

lemma webhook_reaches_reconcile:
  assumes "secret = Some s"
    and "body req = Buffer b"
    and "x_razorpay_signature req = Some (hmac_hex s b)"
    and "JSON_parse b = Some event"
    and "get_prop event ''event'' = Inr (Str tag)"
    and "tag = ''account.activated'' \<or> tag = ''account.updated''"
    and "get_path event [''payload'', ''account'', ''entity'', ''id''] = Inr (Str lid)"
    and "get_path event [''payload'', ''account'', ''entity'', ''status''] = Inr (Str ast)"
    and "get_path event [''payload'', ''account'', ''entity'', ''kyc_status''] = Inr (Str ks)"
  shows "razorpay_webhook hmac_hex JSON_parse secret f us req =
           \<lparr>outcome = Inr (Send 200 ''Webhook Received''),
            users_after = fst (reconcile f us (Str lid) (Str ast) (Str ks) lid),
            store_ops = fst (snd (reconcile f us (Str lid) (Str ast) (Str ks) lid)),
            console = [Log_received tag, Log_details lid ast ks] @
                      snd (snd (reconcile f us (Str lid) (Str ast) (Str ks) lid))\<rparr>"
  using assms by (rule webhook_reaches_try) simp_all

lemma reconcile_applied:
  assumes "\<not> get_fails f" and "\<not> update_fails f"
    and "where_linkedAccountId us lid = (uid, d) # rest"
  shows "reconcile f us lid ast ks t =
           (doc_update us uid (update_data ast ks),
            [Get_where lid, Update uid (update_data ast ks)], [Log_updated uid])"
  using assms by (simp add: reconcile_def Let_def)

lemma field_of_doc_update:
  assumes "map_of us uid = Some d"
  shows "field_of (doc_update us uid data) uid k = Some ((d ++ map_of data) k)"
  using assms by (simp add: field_of_def map_of_doc_update)

lemma update_data_keeps_linkedAccountId:
  "map_of (update_data ast ks) ''linkedAccountId'' = None"
  by (simp add: update_data_def)

lemma where_doc_update:
  assumes "map_of data ''linkedAccountId'' = None"
  shows "where_linkedAccountId (doc_update us i data) v =
           doc_update (where_linkedAccountId us v) i data"
  using assms
  by (induction us)
    (auto simp: where_linkedAccountId_def doc_update_def map_add_def split: if_splits)

lemma map_add_twice: "(d ++ m) ++ m = d ++ m"
  by (rule ext) (simp add: map_add_def split: option.splits)

lemma doc_update_twice:
  "doc_update (doc_update us i data) i data = doc_update us i data"
  by (simp add: doc_update_def case_prod_beta map_add_twice)

lemma reconcile_unchanged:
  assumes "get_fails f \<or> update_fails f \<or> where_linkedAccountId us lid = []"
  shows "fst (reconcile f us lid ast ks t) = us"
  using assms by (auto simp: reconcile_def Let_def split: list.splits)

lemma reconcile_again:
  assumes "\<not> get_fails f" and "\<not> update_fails f"
  shows "fst (reconcile g (fst (reconcile f us lid ast ks t)) lid ast ks t) =
           fst (reconcile f us lid ast ks t)"
proof (cases "where_linkedAccountId us lid")
  case Nil
  then have "fst (reconcile f us lid ast ks t) = us"
    by (simp add: reconcile_unchanged)
  moreover have "fst (reconcile g us lid ast ks t) = us"
    using Nil by (simp add: reconcile_unchanged)
  ultimately show ?thesis by simp
next
  case (Cons ud rest)
  obtain uid d where ud: "ud = (uid, d)" by (cases ud)
  let ?data = "update_data ast ks"
  let ?us' = "doc_update us uid ?data"
  have first: "fst (reconcile f us lid ast ks t) = ?us'"
    using assms Cons ud by (simp add: reconcile_applied)
  have "where_linkedAccountId ?us' lid = doc_update ((uid, d) # rest) uid ?data"
    using Cons ud by (simp add: where_doc_update update_data_keeps_linkedAccountId)
  then have "where_linkedAccountId ?us' lid =
      (uid, d ++ map_of ?data) # doc_update rest uid ?data"
    by (simp add: doc_update_def)
  then have "fst (reconcile g ?us' lid ast ks t) = ?us'"
    by (simp add: reconcile_def Let_def doc_update_twice)
  with first show ?thesis by simp
qed




section \<open>Signature verification\<close>

text \<open>
  C2. The claim is that every inbound webhook request whose header is not the digest of
  its raw body is answered with the rejection status. server.js registers
  \<^verbatim>\<open>express.json()\<close> for all routes in line 12, before this route and its \<^verbatim>\<open>express.raw\<close>
  of line 206, so the body of a JSON request reaches the handler as the parsed object or
  array, against the source's own comments of lines 125 to 128 and 204 to 205. On such
  a body \<^verbatim>\<open>shasum.update\<close> of line 211 throws before the comparison of line 214, whatever
  the header is: the handler sends no rejection, logs nothing and touches no document.
\<close>

theorem parsed_body_not_rejected:
  assumes "secret = Some s"
    and "body req = Parsed (Obj kvs) \<or> body req = Parsed (Arr xs)"
  shows "razorpay_webhook hmac_hex JSON_parse secret f us req =
           \<lparr>outcome = Inl TypeError, users_after = us, store_ops = [], console = []\<rparr>"
  using assms by (auto simp: razorpay_webhook_def threw_def)

theorem parsed_body_not_rejected_witness:
  "razorpay_webhook sample_hmac sample_parse (Some ''whsec'') no_faults [(''p1'', p1)]
     \<lparr>body = Parsed (Obj [(''event'', Str ''account.activated'')]),
      x_razorpay_signature = Some ''tampered''\<rparr> =
   \<lparr>outcome = Inl TypeError, users_after = [(''p1'', p1)], store_ops = [], console = []\<rparr>"
  by (rule parsed_body_not_rejected [where s = "''whsec''"
        and kvs = "[(''event'', Str ''account.activated'')]" and xs = "[]"])
    simp_all



text \<open>
  C9, as stated, asks that every request is rejected when the secret is missing or
  misconfigured. With the secret missing the handler throws instead of sending the
  rejection. With the secret left at the placeholder of the source's comment, a request
  signed under the placeholder is accepted and the store is written.
\<close>

theorem secret_fault_counterexample:
  "outcome (razorpay_webhook sample_hmac sample_parse None no_faults [(''p1'', p1)]
     (signed ''whsec'' body_verified)) = Inl TypeError \<and>
   outcome (razorpay_webhook sample_hmac sample_parse (Some ''your_secret_string'') no_faults
     [(''p1'', p1)] (signed ''your_secret_string'' body_verified)) =
     Inr (Send 200 ''Webhook Received'') \<and>
   store_ops (razorpay_webhook sample_hmac sample_parse (Some ''your_secret_string'') no_faults
     [(''p1'', p1)] (signed ''your_secret_string'' body_verified)) =
     [Get_where (Str ''acc_123''),
      Update ''p1'' [(''razorpayAccountStatus'', Str ''activated''),
        (''razorpayKycStatus'', Str ''verified''), (''kycCompleted'', Bool True)]]"
  by (simp add: razorpay_webhook_def signed_def verify_signature_def sample_parse_verified
      threw_def account_event_def entity_event_def reconcile_def no_faults_def
      where_linkedAccountId_def sample_docs update_data_def Let_def)

text \<open>
  C9, amended. With the secret missing, every request makes the handler throw a
  TypeError where the HMAC is created: nothing is logged, no response is sent, no store
  call is made and the collection is unchanged. For any secret, verification is never
  skipped: a success response, a store call or a changed collection occurs only when the
  header is the digest of the body under the configured secret.
\<close>

theorem secret_fault_behaviour:
  "razorpay_webhook hmac_hex JSON_parse None f us req = threw TypeError us [] \<and>
   (outcome (razorpay_webhook hmac_hex JSON_parse secret f us req) =
      Inr (Send 200 ''Webhook Received'') \<or>
    store_ops (razorpay_webhook hmac_hex JSON_parse secret f us req) \<noteq> [] \<or>
    users_after (razorpay_webhook hmac_hex JSON_parse secret f us req) \<noteq> us \<longrightarrow>
    (\<exists>s b. secret = Some s \<and> hmac_input (body req) = Inr b \<and>
       x_razorpay_signature req = Some (hmac_hex s b)))"
proof (intro conjI impI)
  show "razorpay_webhook hmac_hex JSON_parse None f us req = threw TypeError us []"
    by (simp add: razorpay_webhook_def)
next
  assume a: "outcome (razorpay_webhook hmac_hex JSON_parse secret f us req) =
      Inr (Send 200 ''Webhook Received'') \<or>
    store_ops (razorpay_webhook hmac_hex JSON_parse secret f us req) \<noteq> [] \<or>
    users_after (razorpay_webhook hmac_hex JSON_parse secret f us req) \<noteq> us"
  show "\<exists>s b. secret = Some s \<and> hmac_input (body req) = Inr b \<and>
       x_razorpay_signature req = Some (hmac_hex s b)"
  proof (cases secret)
    case None
    with a show ?thesis
      by (simp add: razorpay_webhook_def threw_def)
  next
    case (Some s)
    show ?thesis
    proof (cases "hmac_input (body req)")
      case (Inl e)
      with a Some show ?thesis
        by (simp add: razorpay_webhook_def threw_def)
    next
      case (Inr b)
      with a Some have "verify_signature hmac_hex s b (x_razorpay_signature req)"
        by (auto simp: razorpay_webhook_def split: if_splits)
      with Some Inr show ?thesis
        by (simp add: verify_signature_def)
    qed
  qed
qed

theorem secret_fault_behaviour_witness:
  "razorpay_webhook sample_hmac sample_parse None no_faults [(''p1'', p1)]
     (signed ''whsec'' body_verified) = threw TypeError [(''p1'', p1)] [] \<and>
   (\<exists>s b. Some ''your_secret_string'' = Some s \<and>
      hmac_input (body (signed ''your_secret_string'' body_verified)) = Inr b \<and>
      x_razorpay_signature (signed ''your_secret_string'' body_verified) =
        Some (sample_hmac s b))"
proof -
  have "outcome (razorpay_webhook sample_hmac sample_parse (Some ''your_secret_string'')
      no_faults [(''p1'', p1)] (signed ''your_secret_string'' body_verified)) =
      Inr (Send 200 ''Webhook Received'')"
    by (simp add: razorpay_webhook_def signed_def verify_signature_def sample_parse_verified
      threw_def account_event_def entity_event_def reconcile_def no_faults_def
      where_linkedAccountId_def sample_docs update_data_def Let_def)
  then show ?thesis
    using secret_fault_behaviour [of sample_hmac sample_parse no_faults "[(''p1'', p1)]"
        "signed ''whsec'' body_verified"]
      secret_fault_behaviour [of sample_hmac sample_parse no_faults "[(''p1'', p1)]"
        "signed ''your_secret_string'' body_verified" "Some ''your_secret_string''"]
    by blast
qed

section \<open>Reconciliation\<close>

text \<open>
  C1. An authenticated \<open>account.activated\<close> or \<open>account.updated\<close> event is applied to
  the first document whose \<open>linkedAccountId\<close> is the event's account id. Afterwards the
  \<open>kycCompleted\<close> field of that document is \<open>true\<close> when \<open>kyc_status\<close> is \<open>verified\<close>,
  \<open>false\<close> when it is \<open>pending\<close> or \<open>rejected\<close>, and what it was before for any other
  status string. Document ids are the primary key of the collection.
\<close>

theorem kycCompleted_follows_kyc_status:
  assumes "secret = Some s"
    and "body req = Buffer b"
    and "x_razorpay_signature req = Some (hmac_hex s b)"
    and "JSON_parse b = Some event"
    and "get_prop event ''event'' = Inr (Str tag)"
    and "tag = ''account.activated'' \<or> tag = ''account.updated''"
    and "get_path event [''payload'', ''account'', ''entity'', ''id''] = Inr (Str lid)"
    and "get_path event [''payload'', ''account'', ''entity'', ''status''] = Inr (Str ast)"
    and "get_path event [''payload'', ''account'', ''entity'', ''kyc_status''] = Inr (Str ks)"
    and "\<not> get_fails f" and "\<not> update_fails f"
    and "distinct (map fst us)"
    and "where_linkedAccountId us (Str lid) = (uid, d) # rest"
  shows "field_of (users_after (razorpay_webhook hmac_hex JSON_parse secret f us req)) uid
           ''kycCompleted'' =
         Some (if ks = ''verified'' then Some (Bool True)
               else if ks = ''pending'' \<or> ks = ''rejected'' then Some (Bool False)
               else d ''kycCompleted'')"
proof -
  have look: "map_of us uid = Some d"
    using assms(13,12) by (rule where_first_lookup)
  have "razorpay_webhook hmac_hex JSON_parse secret f us req =
          \<lparr>outcome = Inr (Send 200 ''Webhook Received''),
           users_after = fst (reconcile f us (Str lid) (Str ast) (Str ks) lid),
           store_ops = fst (snd (reconcile f us (Str lid) (Str ast) (Str ks) lid)),
           console = [Log_received tag, Log_details lid ast ks] @
                     snd (snd (reconcile f us (Str lid) (Str ast) (Str ks) lid))\<rparr>"
    using assms(1-9) by (rule webhook_reaches_reconcile)
  then have "users_after (razorpay_webhook hmac_hex JSON_parse secret f us req) =
          doc_update us uid (update_data (Str ast) (Str ks))"
    by (simp add: reconcile_applied [OF assms(10,11,13)])
  then show ?thesis
    by (simp add: field_of_doc_update [OF look] update_data_def map_add_def)
qed

theorem kycCompleted_follows_kyc_status_witness:
  "field_of (users_after (razorpay_webhook sample_hmac sample_parse (Some ''whsec'') no_faults
      [(''p1'', p1), (''p2'', p2)] (signed ''whsec'' body_verified))) ''p1'' ''kycCompleted'' =
     Some (Some (Bool True)) \<and>
   field_of (users_after (razorpay_webhook sample_hmac sample_parse (Some ''whsec'') no_faults
      [(''p1'', p1), (''p2'', p2)] (signed ''whsec'' body_rejected))) ''p2'' ''kycCompleted'' =
     Some (Some (Bool False)) \<and>
   field_of (users_after (razorpay_webhook sample_hmac sample_parse (Some ''whsec'') no_faults
      [(''p1'', p1), (''p2'', p2)] (signed ''whsec'' body_other))) ''p2'' ''kycCompleted'' =
     Some (Some (Bool True))"
proof (intro conjI)
  have "field_of (users_after (razorpay_webhook sample_hmac sample_parse (Some ''whsec'') no_faults
      [(''p1'', p1), (''p2'', p2)] (signed ''whsec'' body_verified))) ''p1'' ''kycCompleted'' =
     Some (if ''verified'' = ''verified'' then Some (Bool True)
           else if ''verified'' = ''pending'' \<or> ''verified'' = ''rejected'' then Some (Bool False)
           else p1 ''kycCompleted'')"
    by (rule kycCompleted_follows_kyc_status [where s = "''whsec''" and b = body_verified
          and event = "entity_event ''account.activated'' ''acc_123'' ''activated'' ''verified''"
          and tag = "''account.activated''" and lid = "''acc_123''" and ast = "''activated''"
          and rest = "[]" and d = p1])
      (simp_all add: signed_def sample_parse_verified entity_event_def no_faults_def
        where_linkedAccountId_def sample_docs)
  then show "field_of (users_after (razorpay_webhook sample_hmac sample_parse (Some ''whsec'')
      no_faults [(''p1'', p1), (''p2'', p2)] (signed ''whsec'' body_verified))) ''p1''
      ''kycCompleted'' = Some (Some (Bool True))"
    by simp
next
  have "field_of (users_after (razorpay_webhook sample_hmac sample_parse (Some ''whsec'') no_faults
      [(''p1'', p1), (''p2'', p2)] (signed ''whsec'' body_rejected))) ''p2'' ''kycCompleted'' =
     Some (if ''rejected'' = ''verified'' then Some (Bool True)
           else if ''rejected'' = ''pending'' \<or> ''rejected'' = ''rejected'' then Some (Bool False)
           else p2 ''kycCompleted'')"
    by (rule kycCompleted_follows_kyc_status [where s = "''whsec''" and b = body_rejected
          and event = "entity_event ''account.updated'' ''acc_456'' ''suspended'' ''rejected''"
          and tag = "''account.updated''" and lid = "''acc_456''" and ast = "''suspended''"
          and rest = "[]" and d = p2])
      (simp_all add: signed_def sample_parse_rejected entity_event_def no_faults_def
        where_linkedAccountId_def sample_docs)
  then show "field_of (users_after (razorpay_webhook sample_hmac sample_parse (Some ''whsec'')
      no_faults [(''p1'', p1), (''p2'', p2)] (signed ''whsec'' body_rejected))) ''p2''
      ''kycCompleted'' = Some (Some (Bool False))"
    by simp
next
  have "field_of (users_after (razorpay_webhook sample_hmac sample_parse (Some ''whsec'') no_faults
      [(''p1'', p1), (''p2'', p2)] (signed ''whsec'' body_other))) ''p2'' ''kycCompleted'' =
     Some (if ''instantly_activated'' = ''verified'' then Some (Bool True)
           else if ''instantly_activated'' = ''pending'' \<or> ''instantly_activated'' = ''rejected''
           then Some (Bool False)
           else p2 ''kycCompleted'')"
    by (rule kycCompleted_follows_kyc_status [where s = "''whsec''" and b = body_other
          and event = "entity_event ''account.updated'' ''acc_456'' ''activated'' ''instantly_activated''"
          and tag = "''account.updated''" and lid = "''acc_456''" and ast = "''activated''"
          and rest = "[]" and d = p2])
      (simp_all add: signed_def sample_parse_other entity_event_def no_faults_def
        where_linkedAccountId_def sample_docs)
  then show "field_of (users_after (razorpay_webhook sample_hmac sample_parse (Some ''whsec'')
      no_faults [(''p1'', p1), (''p2'', p2)] (signed ''whsec'' body_other))) ''p2''
      ''kycCompleted'' = Some (Some (Bool True))"
    by (simp add: sample_docs)
qed

text \<open>
  C4. Under the same conditions the fields \<open>razorpayAccountStatus\<close> and
  \<open>razorpayKycStatus\<close> of the matched document hold the event's \<open>status\<close> and
  \<open>kyc_status\<close> afterwards, whatever the document held before.
\<close>

theorem status_fields_overwritten:
  assumes "secret = Some s"
    and "body req = Buffer b"
    and "x_razorpay_signature req = Some (hmac_hex s b)"
    and "JSON_parse b = Some event"
    and "get_prop event ''event'' = Inr (Str tag)"
    and "tag = ''account.activated'' \<or> tag = ''account.updated''"
    and "get_path event [''payload'', ''account'', ''entity'', ''id''] = Inr (Str lid)"
    and "get_path event [''payload'', ''account'', ''entity'', ''status''] = Inr (Str ast)"
    and "get_path event [''payload'', ''account'', ''entity'', ''kyc_status''] = Inr (Str ks)"
    and "\<not> get_fails f" and "\<not> update_fails f"
    and "distinct (map fst us)"
    and "where_linkedAccountId us (Str lid) = (uid, d) # rest"
  shows "field_of (users_after (razorpay_webhook hmac_hex JSON_parse secret f us req)) uid
           ''razorpayAccountStatus'' = Some (Some (Str ast)) \<and>
         field_of (users_after (razorpay_webhook hmac_hex JSON_parse secret f us req)) uid
           ''razorpayKycStatus'' = Some (Some (Str ks))"
proof -
  have reach: "razorpay_webhook hmac_hex JSON_parse secret f us req =
          \<lparr>outcome = Inr (Send 200 ''Webhook Received''),
           users_after = fst (reconcile f us (Str lid) (Str ast) (Str ks) lid),
           store_ops = fst (snd (reconcile f us (Str lid) (Str ast) (Str ks) lid)),
           console = [Log_received tag, Log_details lid ast ks] @
                     snd (snd (reconcile f us (Str lid) (Str ast) (Str ks) lid))\<rparr>"
    for f us
    using assms(1-9) by (rule webhook_reaches_reconcile)
  have look: "map_of us uid = Some d"
    using assms(13,12) by (rule where_first_lookup)
  have "users_after (razorpay_webhook hmac_hex JSON_parse secret f us req) =
          doc_update us uid (update_data (Str ast) (Str ks))"
    by (simp add: reach reconcile_applied [OF assms(10,11,13)])
  then show ?thesis
    by (simp add: field_of_doc_update [OF look] update_data_def map_add_def)
qed

theorem status_fields_overwritten_witness:
  "field_of (users_after (razorpay_webhook sample_hmac sample_parse (Some ''whsec'') no_faults
      [(''p1'', p1), (''p2'', p2)] (signed ''whsec'' body_verified))) ''p1''
      ''razorpayAccountStatus'' = Some (Some (Str ''activated'')) \<and>
   field_of (users_after (razorpay_webhook sample_hmac sample_parse (Some ''whsec'') no_faults
      [(''p1'', p1), (''p2'', p2)] (signed ''whsec'' body_verified))) ''p1''
      ''razorpayKycStatus'' = Some (Some (Str ''verified''))"
  by (rule status_fields_overwritten [where s = "''whsec''" and b = body_verified
          and event = "entity_event ''account.activated'' ''acc_123'' ''activated'' ''verified''"
          and tag = "''account.activated''" and lid = "''acc_123''" and ast = "''activated''" and d = p1 and rest = "[]"])
    (simp_all add: signed_def sample_parse_verified entity_event_def no_faults_def
      where_linkedAccountId_def sample_docs)

text \<open>
  C7. Delivering the same authenticated \<open>verified\<close> event a second time leaves the
  collection as the first delivery left it. The first delivery is one whose store calls
  went through; the second may meet any store faults.
\<close>

theorem verified_event_idempotent:
  assumes "secret = Some s"
    and "body req = Buffer b"
    and "x_razorpay_signature req = Some (hmac_hex s b)"
    and "JSON_parse b = Some event"
    and "get_prop event ''event'' = Inr (Str tag)"
    and "tag = ''account.activated'' \<or> tag = ''account.updated''"
    and "get_path event [''payload'', ''account'', ''entity'', ''id''] = Inr (Str lid)"
    and "get_path event [''payload'', ''account'', ''entity'', ''status''] = Inr (Str ast)"
    and "get_path event [''payload'', ''account'', ''entity'', ''kyc_status''] = Inr (Str ''verified'')"
    and "\<not> get_fails f" and "\<not> update_fails f"
  shows "users_after (razorpay_webhook hmac_hex JSON_parse secret g
           (users_after (razorpay_webhook hmac_hex JSON_parse secret f us req)) req) =
         users_after (razorpay_webhook hmac_hex JSON_parse secret f us req)"
proof -
  have reach: "razorpay_webhook hmac_hex JSON_parse secret f us req =
          \<lparr>outcome = Inr (Send 200 ''Webhook Received''),
           users_after = fst (reconcile f us (Str lid) (Str ast) (Str ''verified'') lid),
           store_ops = fst (snd (reconcile f us (Str lid) (Str ast) (Str ''verified'') lid)),
           console = [Log_received tag, Log_details lid ast ''verified''] @
                     snd (snd (reconcile f us (Str lid) (Str ast) (Str ''verified'') lid))\<rparr>"
    for f us
    using assms(1-9) by (rule webhook_reaches_reconcile)
  show ?thesis
    by (simp add: reach reconcile_again [OF assms(10,11)])
qed

theorem verified_event_idempotent_witness:
  "users_after (razorpay_webhook sample_hmac sample_parse (Some ''whsec'') no_faults
     (users_after (razorpay_webhook sample_hmac sample_parse (Some ''whsec'') no_faults
        [(''p1'', p1), (''p2'', p2)] (signed ''whsec'' body_verified)))
     (signed ''whsec'' body_verified)) =
   users_after (razorpay_webhook sample_hmac sample_parse (Some ''whsec'') no_faults
     [(''p1'', p1), (''p2'', p2)] (signed ''whsec'' body_verified))"
  by (rule verified_event_idempotent [where s = "''whsec''" and b = body_verified
          and event = "entity_event ''account.activated'' ''acc_123'' ''activated'' ''verified''"
          and tag = "''account.activated''" and lid = "''acc_123''" and ast = "''activated''"])
    (simp_all add: signed_def sample_parse_verified entity_event_def no_faults_def)

section \<open>Acknowledgement\<close>

text \<open>
  C3. An authenticated request whose body parses as an \<open>account.activated\<close> or
  \<open>account.updated\<close> event, with the three fields of its entity readable and printable, is
  answered with status 200 whatever the store does. When the query finds no document the collection is unchanged and the
  warning of line 250 is logged; when the query or the update throws the collection is
  unchanged and the error of line 253 is logged.
\<close>

theorem store_failures_swallowed:
  assumes "secret = Some s"
    and "body req = Buffer b"
    and "x_razorpay_signature req = Some (hmac_hex s b)"
    and "JSON_parse b = Some event"
    and "get_prop event ''event'' = Inr (Str tag)"
    and "tag = ''account.activated'' \<or> tag = ''account.updated''"
    and "get_path event [''payload'', ''account'', ''entity'', ''id''] = Inr lid"
    and "get_path event [''payload'', ''account'', ''entity'', ''status''] = Inr ast"
    and "get_path event [''payload'', ''account'', ''entity'', ''kyc_status''] = Inr ks"
    and "template_string lid = Inr t1"
    and "template_string ast = Inr t2"
    and "template_string ks = Inr t3"
  shows "let r = razorpay_webhook hmac_hex JSON_parse secret f us req in
           outcome r = Inr (Send 200 ''Webhook Received'') \<and>
           (\<not> get_fails f \<and> where_linkedAccountId us lid = [] \<longrightarrow>
              users_after r = us \<and> store_ops r = [Get_where lid] \<and>
              console r = [Log_received tag, Log_details t1 t2 t3, Warn_no_producer t1]) \<and>
           (get_fails f \<or> (update_fails f \<and> where_linkedAccountId us lid \<noteq> []) \<longrightarrow>
              users_after r = us \<and>
              console r = [Log_received tag, Log_details t1 t2 t3, Error_firebase t1])"
proof -
  have reach: "razorpay_webhook hmac_hex JSON_parse secret f us req =
          \<lparr>outcome = Inr (Send 200 ''Webhook Received''),
           users_after = fst (reconcile f us lid ast ks t1),
           store_ops = fst (snd (reconcile f us lid ast ks t1)),
           console = [Log_received tag, Log_details t1 t2 t3] @
                     snd (snd (reconcile f us lid ast ks t1))\<rparr>"
    using assms by (rule webhook_reaches_try)
  have miss: "reconcile f us lid ast ks t1 = (us, [Get_where lid], [Warn_no_producer t1])"
    if "\<not> get_fails f" and "where_linkedAccountId us lid = []"
    using that by (simp add: reconcile_def)
  have fail: "fst (reconcile f us lid ast ks t1) = us \<and>
      snd (snd (reconcile f us lid ast ks t1)) = [Error_firebase t1]"
    if "get_fails f \<or> (update_fails f \<and> where_linkedAccountId us lid \<noteq> [])"
    using that by (auto simp: reconcile_def Let_def split: list.splits)
  show ?thesis
    unfolding Let_def reach using miss fail by simp
qed

theorem store_failures_swallowed_witness:
  "outcome (razorpay_webhook sample_hmac sample_parse (Some ''whsec'') no_faults
      [(''p2'', p2)] (signed ''whsec'' body_verified)) = Inr (Send 200 ''Webhook Received'') \<and>
   users_after (razorpay_webhook sample_hmac sample_parse (Some ''whsec'') no_faults
      [(''p2'', p2)] (signed ''whsec'' body_verified)) = [(''p2'', p2)] \<and>
   console (razorpay_webhook sample_hmac sample_parse (Some ''whsec'') no_faults
      [(''p2'', p2)] (signed ''whsec'' body_verified)) =
     [Log_received ''account.activated'', Log_details ''acc_123'' ''activated'' ''verified'',
      Warn_no_producer ''acc_123''] \<and>
   outcome (razorpay_webhook sample_hmac sample_parse (Some ''whsec'')
      \<lparr>get_fails = False, update_fails = True\<rparr>
      [(''p1'', p1)] (signed ''whsec'' body_verified)) = Inr (Send 200 ''Webhook Received'') \<and>
   users_after (razorpay_webhook sample_hmac sample_parse (Some ''whsec'')
      \<lparr>get_fails = False, update_fails = True\<rparr>
      [(''p1'', p1)] (signed ''whsec'' body_verified)) = [(''p1'', p1)] \<and>
   console (razorpay_webhook sample_hmac sample_parse (Some ''whsec'')
      \<lparr>get_fails = False, update_fails = True\<rparr>
      [(''p1'', p1)] (signed ''whsec'' body_verified)) =
     [Log_received ''account.activated'', Log_details ''acc_123'' ''activated'' ''verified'',
      Error_firebase ''acc_123'']"
proof -
  have hyps: "Some ''whsec'' = Some ''whsec''"
    "body (signed ''whsec'' body_verified) = Buffer body_verified"
    "x_razorpay_signature (signed ''whsec'' body_verified) =
       Some (sample_hmac ''whsec'' body_verified)"
    "sample_parse body_verified =
       Some (entity_event ''account.activated'' ''acc_123'' ''activated'' ''verified'')"
    "get_prop (entity_event ''account.activated'' ''acc_123'' ''activated'' ''verified'')
       ''event'' = Inr (Str ''account.activated'')"
    "''account.activated'' = ''account.activated'' \<or> ''account.activated'' = ''account.updated''"
    "get_path (entity_event ''account.activated'' ''acc_123'' ''activated'' ''verified'')
       [''payload'', ''account'', ''entity'', ''id''] = Inr (Str ''acc_123'')"
    "get_path (entity_event ''account.activated'' ''acc_123'' ''activated'' ''verified'')
       [''payload'', ''account'', ''entity'', ''status''] = Inr (Str ''activated'')"
    "get_path (entity_event ''account.activated'' ''acc_123'' ''activated'' ''verified'')
       [''payload'', ''account'', ''entity'', ''kyc_status''] = Inr (Str ''verified'')"
    "template_string (Str ''acc_123'') = Inr ''acc_123''"
    "template_string (Str ''activated'') = Inr ''activated''"
    "template_string (Str ''verified'') = Inr ''verified''"
    by (simp_all add: signed_def sample_parse_verified entity_event_def)
  have miss: "where_linkedAccountId [(''p2'', p2)] (Str ''acc_123'') = []"
    by (simp add: where_linkedAccountId_def sample_docs)
  have hit: "where_linkedAccountId [(''p1'', p1)] (Str ''acc_123'') \<noteq> []"
    by (simp add: where_linkedAccountId_def sample_docs)
  show ?thesis
    using store_failures_swallowed [where hmac_hex = sample_hmac and JSON_parse = sample_parse
        and f = no_faults and us = "[(''p2'', p2)]", OF hyps]
      store_failures_swallowed [where hmac_hex = sample_hmac and JSON_parse = sample_parse
        and f = "\<lparr>get_fails = False, update_fails = True\<rparr>" and us = "[(''p1'', p1)]",
        OF hyps]
    by (simp add: Let_def miss hit no_faults_def)
qed

text \<open>
  C5. An authenticated request whose event tag can be printed and is neither
  \<open>account.activated\<close> nor \<open>account.updated\<close> is answered with status 200 without any
  store call; the collection is unchanged.
\<close>

theorem other_events_acknowledged:
  assumes "secret = Some s"
    and "body req = Buffer b"
    and "x_razorpay_signature req = Some (hmac_hex s b)"
    and "JSON_parse b = Some event"
    and "get_prop event ''event'' = Inr tag"
    and "template_string tag = Inr t"
    and "tag \<noteq> Str ''account.activated''"
    and "tag \<noteq> Str ''account.updated''"
  shows "razorpay_webhook hmac_hex JSON_parse secret f us req =
           \<lparr>outcome = Inr (Send 200 ''Webhook Received''), users_after = us,
            store_ops = [], console = [Log_received t]\<rparr>"
  using assms by (simp add: razorpay_webhook_def verify_signature_def)

theorem other_events_acknowledged_witness:
  "razorpay_webhook sample_hmac sample_parse (Some ''whsec'') no_faults
     [(''p1'', p1), (''p2'', p2)] (signed ''whsec'' body_payment) =
   \<lparr>outcome = Inr (Send 200 ''Webhook Received''), users_after = [(''p1'', p1), (''p2'', p2)],
    store_ops = [], console = [Log_received ''payment.captured'']\<rparr>"
  by (rule other_events_acknowledged [where s = "''whsec''" and b = body_payment
        and event = "Obj [(''event'', Str ''payment.captured'')]"
        and tag = "Str ''payment.captured''"])
    (simp_all add: signed_def sample_parse_payment)




section \<open>Payment verification\<close>

text \<open>
  C10, as stated, asks for success whenever the three fields are carried and the digest
  of \<open>orderId|paymentId\<close> is the supplied signature. A request that carries an empty
  \<open>orderId\<close> and the matching digest is answered with the failure for missing fields.
\<close>

theorem verify_payment_counterexample:
  "verify_payment sample_hmac (Some ''key_secret'')
     (payment_body [] ''pay_1'' (sample_hmac ''key_secret'' ([] @ ''|'' @ ''pay_1''))) =
   Inr (Json 400 ''failed'' ''Missing fields for verification.'')"
  by (simp add: verify_payment_def payment_body_def)

text \<open>
  C10, amended. A body that is \<open>undefined\<close> or \<open>null\<close> makes the handler throw a
  TypeError. Otherwise, with \<open>oid\<close>, \<open>pid\<close> and \<open>sig\<close> the three fields of the body: when one
  of them is falsy (missing, \<open>null\<close>, empty, zero or \<open>false\<close>) the response is status 400
  with the message for missing fields, whatever the digest function and the key are.
  When all three are truthy, \<open>KEY_SECRET\<close> is set and the two ids can be printed into the
  template literal, the response is status 200 if the supplied signature is the hex
  digest of the two ids joined by a bar, and status 400 with \<open>Invalid signature\<close> if it
  is not. When all three are truthy but \<open>KEY_SECRET\<close> is not set or an id cannot be
  printed, the handler throws.
\<close>

theorem verify_payment_result:
  "(json_body = Undefined \<or> json_body = Null \<longrightarrow>
      verify_payment hmac_hex KEY_SECRET json_body = Inl TypeError) \<and>
   (\<forall>oid pid sig.
      get_prop json_body ''orderId'' = Inr oid \<and> get_prop json_body ''paymentId'' = Inr pid \<and>
      get_prop json_body ''razorpaySignature'' = Inr sig \<longrightarrow>
      (falsy oid \<or> falsy pid \<or> falsy sig \<longrightarrow>
         verify_payment hmac_hex KEY_SECRET json_body =
           Inr (Json 400 ''failed'' ''Missing fields for verification.'')) \<and>
      (\<forall>k ot pt.
         \<not> falsy oid \<and> \<not> falsy pid \<and> \<not> falsy sig \<and> KEY_SECRET = Some k \<and>
         template_string oid = Inr ot \<and> template_string pid = Inr pt \<longrightarrow>
         verify_payment hmac_hex KEY_SECRET json_body =
           (if sig = Str (hmac_hex k (ot @ ''|'' @ pt))
            then Inr (Json 200 ''success'' ''Payment verified successfully'')
            else Inr (Json 400 ''failed'' ''Invalid signature''))) \<and>
      (\<not> falsy oid \<and> \<not> falsy pid \<and> \<not> falsy sig \<and>
       (KEY_SECRET = None \<or> isl (template_string oid) \<or> isl (template_string pid)) \<longrightarrow>
         isl (verify_payment hmac_hex KEY_SECRET json_body)))"
proof (intro conjI allI impI)
  assume "json_body = Undefined \<or> json_body = Null"
  then show "verify_payment hmac_hex KEY_SECRET json_body = Inl TypeError"
    by (auto simp: verify_payment_def)
next
  fix oid pid sig
  assume "get_prop json_body ''orderId'' = Inr oid \<and> get_prop json_body ''paymentId'' = Inr pid \<and>
      get_prop json_body ''razorpaySignature'' = Inr sig"
    and "falsy oid \<or> falsy pid \<or> falsy sig"
  then show "verify_payment hmac_hex KEY_SECRET json_body =
      Inr (Json 400 ''failed'' ''Missing fields for verification.'')"
    by (auto simp: verify_payment_def)
next
  fix oid pid sig k ot pt
  assume "get_prop json_body ''orderId'' = Inr oid \<and> get_prop json_body ''paymentId'' = Inr pid \<and>
      get_prop json_body ''razorpaySignature'' = Inr sig"
    and "\<not> falsy oid \<and> \<not> falsy pid \<and> \<not> falsy sig \<and> KEY_SECRET = Some k \<and>
         template_string oid = Inr ot \<and> template_string pid = Inr pt"
  then show "verify_payment hmac_hex KEY_SECRET json_body =
      (if sig = Str (hmac_hex k (ot @ ''|'' @ pt))
       then Inr (Json 200 ''success'' ''Payment verified successfully'')
       else Inr (Json 400 ''failed'' ''Invalid signature''))"
    by (simp add: verify_payment_def Let_def)
next
  fix oid pid sig
  assume "get_prop json_body ''orderId'' = Inr oid \<and> get_prop json_body ''paymentId'' = Inr pid \<and>
      get_prop json_body ''razorpaySignature'' = Inr sig"
    and "\<not> falsy oid \<and> \<not> falsy pid \<and> \<not> falsy sig \<and>
       (KEY_SECRET = None \<or> isl (template_string oid) \<or> isl (template_string pid))"
  then show "isl (verify_payment hmac_hex KEY_SECRET json_body)"
    by (auto simp: verify_payment_def Let_def isl_def split: option.splits sum.splits)
qed

theorem verify_payment_result_witness:
  "verify_payment sample_hmac (Some ''key_secret'')
     (payment_body ''order_1'' ''pay_1'' (sample_hmac ''key_secret'' ''order_1|pay_1'')) =
     Inr (Json 200 ''success'' ''Payment verified successfully'') \<and>
   verify_payment sample_hmac (Some ''key_secret'')
     (payment_body ''order_1'' ''pay_1'' ''forged'') =
     Inr (Json 400 ''failed'' ''Invalid signature'') \<and>
   verify_payment sample_hmac (Some ''key_secret'')
     (Obj [(''orderId'', Str ''order_1''),
           (''razorpaySignature'', Str (sample_hmac ''key_secret'' ''order_1|pay_1''))]) =
     Inr (Json 400 ''failed'' ''Missing fields for verification.'') \<and>
   verify_payment sample_hmac (Some ''key_secret'') Undefined = Inl TypeError \<and>
   isl (verify_payment sample_hmac (Some ''key_secret'')
     (Obj [(''orderId'', Obj [(''toString'', Num ''1'')]), (''paymentId'', Str ''pay_1''),
           (''razorpaySignature'', Str ''forged'')]))"
proof -
  have reads: "get_prop (payment_body oid pid sig) ''orderId'' = Inr (Str oid) \<and>
      get_prop (payment_body oid pid sig) ''paymentId'' = Inr (Str pid) \<and>
      get_prop (payment_body oid pid sig) ''razorpaySignature'' = Inr (Str sig)"
    for oid pid sig
    by (simp add: payment_body_def)
  note good = verify_payment_result [of
      "payment_body ''order_1'' ''pay_1'' (sample_hmac ''key_secret'' ''order_1|pay_1'')"
      sample_hmac "Some ''key_secret''"]
  note forged = verify_payment_result [of "payment_body ''order_1'' ''pay_1'' ''forged''"
      sample_hmac "Some ''key_secret''"]
  note missing = verify_payment_result [of
      "Obj [(''orderId'', Str ''order_1''),
            (''razorpaySignature'', Str (sample_hmac ''key_secret'' ''order_1|pay_1''))]"
      sample_hmac "Some ''key_secret''"]
  note nobody = verify_payment_result [of Undefined sample_hmac "Some ''key_secret''"]
  note unprintable = verify_payment_result [of
      "Obj [(''orderId'', Obj [(''toString'', Num ''1'')]), (''paymentId'', Str ''pay_1''),
            (''razorpaySignature'', Str ''forged'')]"
      sample_hmac "Some ''key_secret''"]
  have 1: "verify_payment sample_hmac (Some ''key_secret'')
     (payment_body ''order_1'' ''pay_1'' (sample_hmac ''key_secret'' ''order_1|pay_1'')) =
     Inr (Json 200 ''success'' ''Payment verified successfully'')"
    using good reads [of "''order_1''" "''pay_1''" "sample_hmac ''key_secret'' ''order_1|pay_1''"]
    by (simp add: sample_hmac_def)
  have 2: "verify_payment sample_hmac (Some ''key_secret'')
     (payment_body ''order_1'' ''pay_1'' ''forged'') =
     Inr (Json 400 ''failed'' ''Invalid signature'')"
    using forged reads [of "''order_1''" "''pay_1''" "''forged''"]
    by (simp add: sample_hmac_def)
  have 3: "verify_payment sample_hmac (Some ''key_secret'')
     (Obj [(''orderId'', Str ''order_1''),
           (''razorpaySignature'', Str (sample_hmac ''key_secret'' ''order_1|pay_1''))]) =
     Inr (Json 400 ''failed'' ''Missing fields for verification.'')"
    using missing by simp
  have 4: "verify_payment sample_hmac (Some ''key_secret'') Undefined = Inl TypeError"
    using nobody by simp
  have 5: "isl (verify_payment sample_hmac (Some ''key_secret'')
     (Obj [(''orderId'', Obj [(''toString'', Num ''1'')]), (''paymentId'', Str ''pay_1''),
           (''razorpaySignature'', Str ''forged'')]))"
    using unprintable by simp
  from 1 2 3 4 5 show ?thesis by blast
qed

end
